theory Spec2Isabelle
  imports Complex_Main "HOL-Library.Log_Nat" "HOL-Library.List_Lexorder" "HOL-Library.Char_ord"
begin

section \<open>Order, inventory and promo-code workflow of server/routes-sqlite.ts\<close>

text \<open>
  The handlers of \<^verbatim>\<open>server/routes-sqlite.ts\<close> that create, update and delete orders
  are embedded as functions from a database state to a response and a new database state.
  A table is the list of its rows, \<^verbatim>\<open>db.queryOne\<close> is \<open>find\<close>, an SQL \<^verbatim>\<open>UPDATE\<close>
  maps over the rows and changes those that satisfy the \<^verbatim>\<open>WHERE\<close> clause, an
  \<^verbatim>\<open>INSERT\<close> appends a row and a \<^verbatim>\<open>DELETE\<close> filters.

  JavaScript numbers are IEEE doubles. Amounts of money are rationals, quantities and
  identifiers are integers. The percentage of a promo code is computed as the doubles
  compute it: the quotient \<^verbatim>\<open>discount_value / 100\<close> and its product with the base are
  each rounded to the nearest double (\<open>fl\<close>). The sums, differences and products with a
  quantity that make up a total are taken exact, which is what doubles give on amounts in
  whole currency units below \<open>2 ^ 53\<close>. A timestamp is the text the database holds: the
  ISO text of the promo schema (\<^verbatim>\<open>2024-01-01T00:00:00.000Z\<close>) in a promo code's columns,
  and the parameter \<open>now\<close> is the text that \<^verbatim>\<open>datetime('now')\<close> returns
  (\<^verbatim>\<open>2024-06-15 12:00:00\<close>); SQLite compares the two as text, byte by byte, which is the
  lexicographic order of strings. The columns of an order that no
  handler below reads (name, address, phone, comments, tracking data, timestamps) are left
  out. The \<^verbatim>\<open>items\<close> column holds the JSON text that order creation writes; the model
  holds the list it decodes to. Exceptions thrown by the database driver are not modelled.
\<close>

subsection \<open>JavaScript values read from a row\<close>

text \<open>
  The value a row holds in an \<^verbatim>\<open>INTEGER\<close> column as JavaScript sees it. The file
  tests such columns with \<^verbatim>\<open>=== 1\<close> (\<^verbatim>\<open>is_admin\<close>, \<^verbatim>\<open>need_insulation\<close>,
  \<^verbatim>\<open>is_approved\<close>, \<^verbatim>\<open>seen\<close>): the driver returns the stored integer as a number.
\<close>

datatype jsval = JNull | JBool bool | JNum int

fun truthy :: "jsval \<Rightarrow> bool" where
  "truthy JNull = False"
| "truthy (JBool b) = b"
| "truthy (JNum n) = (n \<noteq> 0)"

text \<open>\<^verbatim>\<open>v === true\<close>: strict equality does not convert a number to a boolean.\<close>

fun strict_eq_true :: "jsval \<Rightarrow> bool" where
  "strict_eq_true (JBool b) = b"
| "strict_eq_true _ = False"

text \<open>Truthiness of an optional string (\<^verbatim>\<open>undefined\<close>, \<^verbatim>\<open>null\<close> and \<^verbatim>\<open>""\<close> are falsy)
  and of an optional number (\<^verbatim>\<open>null\<close> and \<^verbatim>\<open>0\<close> are falsy).\<close>

fun truthy_str :: "string option \<Rightarrow> bool" where
  "truthy_str None = False"
| "truthy_str (Some s) = (s \<noteq> [])"

fun truthy_num :: "'a::zero option \<Rightarrow> bool" where
  "truthy_num None = False"
| "truthy_num (Some n) = (n \<noteq> 0)"

text \<open>
  Rounding a number to the nearest double, ties to the even mantissa: \<open>ilog2 x\<close> is the
  exponent of the leading bit of \<open>x\<close>, and the 53 bits from there on are kept. Overflow
  and subnormal numbers, which no amount of money reaches, are not modelled.
\<close>

definition pow2 :: "int \<Rightarrow> rat" where
  "pow2 e = (if 0 \<le> e then 2 ^ nat e else 1 / 2 ^ nat (- e))"

definition round_half_even :: "rat \<Rightarrow> int" where
  "round_half_even x =
     (let f = \<lfloor>x\<rfloor>; r = x - of_int f
      in if r < 1 / 2 then f else if 1 / 2 < r then f + 1 else if even f then f else f + 1)"

definition ilog2 :: "rat \<Rightarrow> int" where
  "ilog2 x =
     (case quotient_of \<bar>x\<bar> of
        (p, q) \<Rightarrow> (let k = bitlen p - bitlen q in if pow2 k \<le> \<bar>x\<bar> then k else k - 1))"

definition fl :: "rat \<Rightarrow> rat" where
  "fl x = (if x = 0 then 0
           else (let e = ilog2 x - 52 in of_int (round_half_even (x / pow2 e)) * pow2 e))"

text \<open>\<^verbatim>\<open>Math.round\<close> rounds to the nearest integer, halves towards plus infinity.\<close>

definition Math_round :: "rat \<Rightarrow> rat" where
  "Math_round x = of_int \<lfloor>x + 1 / 2\<rfloor>"

text \<open>\<^verbatim>\<open>String.prototype.toUpperCase\<close> on ASCII text.\<close>

definition upper_char :: "char \<Rightarrow> char" where
  "upper_char c =
     (let n = (of_char c :: nat) in if 97 \<le> n \<and> n \<le> 122 then char_of (n - 32) else c)"

definition toUpperCase :: "string \<Rightarrow> string" where
  "toUpperCase s = map upper_char s"

subsection \<open>Tables\<close>

record product =
  p_id :: int
  p_name :: string
  p_price :: rat
  p_quantity :: int

datatype discount_type = Percentage | Fixed

text \<open>
  A row of \<^verbatim>\<open>promo_codes\<close>. The columns are those of the \<^verbatim>\<open>PromoCode\<close> interface;
  \<open>expires_at\<close> is the column that the apply-promo handler's query reads, which no
  \<^verbatim>\<open>INSERT\<close> or \<^verbatim>\<open>UPDATE\<close> of the file ever sets.
\<close>

record promo_code_row =
  pc_id :: int
  pc_code :: string
  discount_type :: discount_type
  discount_value :: rat
  min_order_amount :: "rat option"
  start_date :: string
  end_date :: string
  expires_at :: "string option"
  max_uses :: "int option"
  current_uses :: int
  is_active :: bool

record promo_code_use =
  promo_code_id :: int
  use_user_id :: int
  use_order_id :: int
  discount_amount :: "rat option"

text \<open>A line item as order creation freezes it: product id, captured name and price, quantity.\<close>

record order_item =
  oi_id :: int
  oi_name :: string
  oi_price :: rat
  oi_quantity :: int

record order_row =
  o_id :: int
  user_id :: int
  items :: "order_item list"
  total_amount :: rat
  delivery_amount :: rat
  payment_method :: string
  payment_status :: string
  order_status :: string
  payment_proof_url :: "string option"
  promo_code :: "string option"
  promo_code_discount :: "rat option"
  product_quantities_reduced :: jsval

record database =
  products :: "product list"
  promo_codes :: "promo_code_row list"
  promo_code_uses :: "promo_code_use list"
  orders :: "order_row list"

text \<open>\<^verbatim>\<open>SELECT * FROM products WHERE id = ?\<close> and \<^verbatim>\<open>SELECT * FROM orders WHERE id = ?\<close>.\<close>

definition query_product :: "product list \<Rightarrow> int \<Rightarrow> product option" where
  "query_product ps i = find (\<lambda>p. p_id p = i) ps"

definition query_order :: "order_row list \<Rightarrow> int \<Rightarrow> order_row option" where
  "query_order rows i = find (\<lambda>row. o_id row = i) rows"

subsection \<open>Responses\<close>

text \<open>
  Every response that is not a success. The user-facing messages are Russian text in the
  source; \<open>message_text\<close> gives each message template in Latin transliteration, with the
  interpolated values left as the source's \<^verbatim>\<open>${...}\<close> placeholders (the values themselves
  are the arguments of the constructor).
\<close>

datatype failure =
    Forbidden
  | EmptyCart
  | DeliveryMissing
  | ProductNotFound int
  | InsufficientStock string int
  | MinOrderAmount rat
  | InvalidPromo
  | OrderCreationError
  | Unauthorized
  | OrderNotFound
  | PromoMinOrderAmount rat
  | PromoLimitReached
  | PromoAlreadyUsed
  | StatusMissing
  | OrderIdNotFound int
  | PromoUpdateError

fun status_code :: "failure \<Rightarrow> nat" where
  "status_code Forbidden = 403"
| "status_code EmptyCart = 400"
| "status_code DeliveryMissing = 400"
| "status_code (ProductNotFound i) = 400"
| "status_code (InsufficientStock n q) = 400"
| "status_code (MinOrderAmount m) = 400"
| "status_code InvalidPromo = 400"
| "status_code OrderCreationError = 500"
| "status_code Unauthorized = 401"
| "status_code OrderNotFound = 404"
| "status_code (PromoMinOrderAmount m) = 400"
| "status_code PromoLimitReached = 400"
| "status_code PromoAlreadyUsed = 400"
| "status_code StatusMissing = 400"
| "status_code (OrderIdNotFound i) = 404"
| "status_code PromoUpdateError = 500"

fun message_text :: "failure \<Rightarrow> string" where
  "message_text Forbidden = ''Nelzya sozdat zakaz ot imeni drugogo polzovatelya''"
| "message_text EmptyCart = ''Korzina pusta ili imeet nevernyj format''"
| "message_text DeliveryMissing = ''Ne ukazana stoimost dostavki''"
| "message_text (ProductNotFound i) = ''Tovar s ID ${item.id} ne najden''"
| "message_text (InsufficientStock n q) =
     ''Nedostatochnoe kolichestvo tovara ${product.name} v nalichii (dostupno: ${product.quantity})''"
| "message_text (MinOrderAmount m) =
     ''Minimalnaya summa zakaza dlya primeneniya promokoda: ${promoCode.min_order_amount}''"
| "message_text InvalidPromo = ''Nedejstvitelnyj promokod''"
| "message_text OrderCreationError = ''Oshibka pri sozdanii zakaza''"
| "message_text Unauthorized = ''Polzovatel ne avtorizovan''"
| "message_text OrderNotFound = ''Zakaz ne najden''"
| "message_text (PromoMinOrderAmount m) =
     ''Minimalnaya summa zakaza dlya etogo promokoda: ${promo.min_order_amount}''"
| "message_text PromoLimitReached = ''Dostignut limit ispolzovanij promokoda''"
| "message_text PromoAlreadyUsed = ''Vy uzhe ispolzovali etot promokod''"
| "message_text StatusMissing = ''Ne ukazan novyj status zakaza''"
| "message_text (OrderIdNotFound i) = ''Zakaz #${orderId} ne najden''"
| "message_text PromoUpdateError = ''Oshibka pri obnovlenii promokoda''"

subsection \<open>POST /api/orders\<close>

record cart_item =
  item_id :: int
  item_quantity :: int

text \<open>
  The fields of \<^verbatim>\<open>CreateOrderRequest\<close> that decide the order's amounts and side effects.
  \<open>deliveryAmount\<close> is \<open>None\<close> when the field is \<^verbatim>\<open>undefined\<close>, \<^verbatim>\<open>null\<close> or not a
  number.
\<close>

record create_order_request =
  userId :: int
  req_items :: "cart_item list"
  deliveryAmount :: "rat option"
  paymentMethod :: string
  paymentProof :: "string option"
  promoCode :: "string option"

record session_user =
  su_id :: int
  isAdmin :: bool

text \<open>The loop that validates the cart lines and accumulates \<^verbatim>\<open>itemsTotal\<close>.\<close>

fun items_total_loop :: "product list \<Rightarrow> cart_item list \<Rightarrow> rat \<Rightarrow> failure + rat" where
  "items_total_loop ps [] itemsTotal = Inr itemsTotal"
| "items_total_loop ps (item # rest) itemsTotal =
     (case query_product ps (item_id item) of
        None \<Rightarrow> Inl (ProductNotFound (item_id item))
      | Some product \<Rightarrow>
          if p_quantity product < item_quantity item
          then Inl (InsufficientStock (p_name product) (p_quantity product))
          else items_total_loop ps rest
                 (itemsTotal + p_price product * of_int (item_quantity item)))"

text \<open>
  The promo lookup of order creation:
  \<^verbatim>\<open>WHERE code = ? AND is_active = 1 AND (start_date <= datetime('now') AND
  end_date >= datetime('now')) AND (max_uses IS NULL OR current_uses < max_uses)\<close>.
\<close>

definition under_use_cap :: "promo_code_row \<Rightarrow> bool" where
  "under_use_cap p = (case max_uses p of None \<Rightarrow> True | Some m \<Rightarrow> current_uses p < m)"

definition query_valid_promo :: "string \<Rightarrow> promo_code_row list \<Rightarrow> string \<Rightarrow> promo_code_row option" where
  "query_valid_promo now pcs c =
     find (\<lambda>p. pc_code p = c \<and> is_active p \<and> start_date p \<le> now \<and> end_date p \<ge> now
               \<and> under_use_cap p) pcs"

text \<open>
  The discount of a promo code on a base amount, as both promo paths compute it:
  \<^verbatim>\<open>Math.round(base * (discount_value / 100))\<close> for a percentage code, the
  \<^verbatim>\<open>discount_value\<close> otherwise, then \<^verbatim>\<open>Math.min(discount, base)\<close>. The quotient and
  the product are doubles: 29 percent of 50 is 14.499999999999998 and rounds to 14.
\<close>

definition promo_discount :: "promo_code_row \<Rightarrow> rat \<Rightarrow> rat" where
  "promo_discount promo base =
     (let discount = (case discount_type promo of
                        Percentage \<Rightarrow> Math_round (fl (base * fl (discount_value promo / 100)))
                      | Fixed \<Rightarrow> discount_value promo)
      in min discount base)"

text \<open>The promo step of order creation: \<^verbatim>\<open>promoCodeDiscount\<close>, or the 400 response.\<close>

definition order_promo_discount ::
  "string \<Rightarrow> promo_code_row list \<Rightarrow> string option \<Rightarrow> rat \<Rightarrow> failure + rat option" where
  "order_promo_discount now pcs code itemsTotal =
     (if truthy_str code then
        (case query_valid_promo now pcs (toUpperCase (the code)) of
           Some promo \<Rightarrow>
             if truthy_num (min_order_amount promo) \<and> itemsTotal < the (min_order_amount promo)
             then Inl (MinOrderAmount (the (min_order_amount promo)))
             else Inr (Some (promo_discount promo itemsTotal))
         | None \<Rightarrow> Inl InvalidPromo)
      else Inr None)"

text \<open>The frozen line item: \<^verbatim>\<open>product?.name || "Unknown Product"\<close>, \<^verbatim>\<open>product?.price || 0\<close>.\<close>

definition snapshot_item :: "product list \<Rightarrow> cart_item \<Rightarrow> order_item" where
  "snapshot_item ps item =
     (case query_product ps (item_id item) of
        None \<Rightarrow> \<lparr>oi_id = item_id item, oi_name = ''Unknown Product'', oi_price = 0,
                  oi_quantity = item_quantity item\<rparr>
      | Some product \<Rightarrow>
          \<lparr>oi_id = item_id item,
           oi_name = (if p_name product = [] then ''Unknown Product'' else p_name product),
           oi_price = p_price product,
           oi_quantity = item_quantity item\<rparr>)"

text \<open>\<^verbatim>\<open>result.lastInsertRowid\<close>: SQLite gives a new row the largest id in use plus one.\<close>

definition lastInsertRowid :: "order_row list \<Rightarrow> int" where
  "lastInsertRowid rows = fold max (map o_id rows) 0 + 1"

text \<open>\<^verbatim>\<open>UPDATE promo_codes SET current_uses = current_uses + 1 WHERE code = ?\<close> and the
  \<^verbatim>\<open>INSERT INTO promo_code_uses ... SELECT id, ?, ?, ? FROM promo_codes WHERE code = ?\<close>.\<close>

definition increment_uses_by_code :: "string \<Rightarrow> promo_code_row list \<Rightarrow> promo_code_row list" where
  "increment_uses_by_code c pcs =
     map (\<lambda>p. if pc_code p = c then p\<lparr>current_uses := current_uses p + 1\<rparr> else p) pcs"

definition insert_uses_by_code ::
  "string \<Rightarrow> int \<Rightarrow> int \<Rightarrow> rat option \<Rightarrow> promo_code_row list \<Rightarrow> promo_code_use list" where
  "insert_uses_by_code c uid oid d pcs =
     map (\<lambda>p. \<lparr>promo_code_id = pc_id p, use_user_id = uid, use_order_id = oid,
                discount_amount = d\<rparr>)
         (filter (\<lambda>p. pc_code p = c) pcs)"

text \<open>The loop of \<^verbatim>\<open>UPDATE products SET quantity = quantity - ? WHERE id = ?\<close>.\<close>

fun reduce_quantities :: "cart_item list \<Rightarrow> product list \<Rightarrow> product list" where
  "reduce_quantities [] ps = ps"
| "reduce_quantities (item # rest) ps =
     reduce_quantities rest
       (map (\<lambda>p. if p_id p = item_id item
                 then p\<lparr>p_quantity := p_quantity p - item_quantity item\<rparr> else p) ps)"

definition mark_reduced :: "int \<Rightarrow> order_row list \<Rightarrow> order_row list" where
  "mark_reduced oid rows =
     map (\<lambda>row. if o_id row = oid then row\<lparr>product_quantities_reduced := JNum 1\<rparr> else row) rows"

text \<open>
  The transaction of order creation: insert the order, record the promo use, reduce the
  stock when the payment method is \<^verbatim>\<open>"balance"\<close> or a payment proof is attached, then
  read the created order back. The \<^verbatim>\<open>INSERT\<close> does not name the column
  \<^verbatim>\<open>product_quantities_reduced\<close>, which takes its default 0.
\<close>

definition save_order ::
  "create_order_request \<Rightarrow> rat \<Rightarrow> rat \<Rightarrow> rat option \<Rightarrow> database
     \<Rightarrow> (failure + order_row) \<times> database" where
  "save_order orderData delivery itemsTotal promoCodeDiscount db =
     (let totalAmount = itemsTotal - (case promoCodeDiscount of None \<Rightarrow> 0 | Some d \<Rightarrow> d) + delivery;
          orderId = lastInsertRowid (orders db);
          orderToSave =
            \<lparr>o_id = orderId,
             user_id = userId orderData,
             items = map (snapshot_item (products db)) (req_items orderData),
             total_amount = totalAmount,
             delivery_amount = delivery,
             payment_method = paymentMethod orderData,
             payment_status = (if paymentMethod orderData = ''balance'' then ''completed'' else ''pending''),
             order_status = (if paymentMethod orderData = ''balance'' then ''processing'' else ''pending''),
             payment_proof_url = (if truthy_str (paymentProof orderData) then paymentProof orderData else None),
             promo_code = (if truthy_str (promoCode orderData) then promoCode orderData else None),
             promo_code_discount = promoCodeDiscount,
             product_quantities_reduced = JNum 0\<rparr>;
          db1 = db\<lparr>orders := orders db @ [orderToSave]\<rparr>;
          db2 = (if truthy_str (promoCode orderData) then
                   (let c = toUpperCase (the (promoCode orderData));
                        pcs = increment_uses_by_code c (promo_codes db1)
                    in db1\<lparr>promo_codes := pcs,
                          promo_code_uses := promo_code_uses db1 @
                            insert_uses_by_code c (userId orderData) orderId promoCodeDiscount pcs\<rparr>)
                 else db1);
          db3 = (if paymentMethod orderData = ''balance'' \<or> truthy_str (paymentProof orderData) then
                   db2\<lparr>products := reduce_quantities (req_items orderData) (products db2),
                       orders := mark_reduced orderId (orders db2)\<rparr>
                 else db2)
      in (case query_order (orders db3) orderId of
            None \<Rightarrow> (Inl OrderCreationError, db3)
          | Some createdOrder \<Rightarrow> (Inr createdOrder, db3)))"

text \<open>The handler: the checks run before the transaction begins and return at once.\<close>

definition post_orders ::
  "string \<Rightarrow> session_user \<Rightarrow> create_order_request \<Rightarrow> database
     \<Rightarrow> (failure + order_row) \<times> database" where
  "post_orders now user orderData db =
     (if su_id user \<noteq> userId orderData \<and> \<not> isAdmin user then (Inl Forbidden, db)
      else if req_items orderData = [] then (Inl EmptyCart, db)
      else case deliveryAmount orderData of
        None \<Rightarrow> (Inl DeliveryMissing, db)
      | Some delivery \<Rightarrow>
          (case items_total_loop (products db) (req_items orderData) 0 of
             Inl f \<Rightarrow> (Inl f, db)
           | Inr itemsTotal \<Rightarrow>
               (case order_promo_discount now (promo_codes db) (promoCode orderData) itemsTotal of
                  Inl f \<Rightarrow> (Inl f, db)
                | Inr promoCodeDiscount \<Rightarrow>
                    save_order orderData delivery itemsTotal promoCodeDiscount db)))"


subsection \<open>updateProductQuantities\<close>

text \<open>
  The loop over the line items. An item without a truthy \<^verbatim>\<open>id\<close> is skipped; the quantity
  is \<^verbatim>\<open>parseInt(String(item.quantity || 0))\<close>, which on the numbers that order creation
  stores is the number itself, and an item whose quantity is not positive is skipped; an
  item whose product is gone is skipped. \<^verbatim>\<open>success\<close> becomes false when the
  \<^verbatim>\<open>UPDATE\<close> changes no row.
\<close>

fun reduce_loop :: "order_item list \<Rightarrow> product list \<Rightarrow> bool \<Rightarrow> bool \<times> product list" where
  "reduce_loop [] ps success = (success, ps)"
| "reduce_loop (item # rest) ps success =
     (if oi_id item = 0 then reduce_loop rest ps success
      else if oi_quantity item \<le> 0 then reduce_loop rest ps success
      else case query_product ps (oi_id item) of
        None \<Rightarrow> reduce_loop rest ps success
      | Some product \<Rightarrow>
          reduce_loop rest
            (map (\<lambda>p. if p_id p = oi_id item
                      then p\<lparr>p_quantity := max 0 (p_quantity product - oi_quantity item)\<rparr>
                      else p) ps)
            (if length (filter (\<lambda>p. p_id p = oi_id item) ps) = 0 then False else success))"

text \<open>
  The function: no items, the guard on the order's flag
  (\<^verbatim>\<open>orderRecord.product_quantities_reduced === true\<close>), then the transaction, which
  sets the flag with \<^verbatim>\<open>UPDATE orders SET product_quantities_reduced = 1\<close> and commits
  when every item succeeded, and rolls back otherwise. The order id is a route parameter
  and never empty, and the column of the flag exists, so the first check and the schema
  repair of the source have no branch here.
\<close>

definition updateProductQuantities :: "int \<Rightarrow> order_item list \<Rightarrow> database \<Rightarrow> bool \<times> database" where
  "updateProductQuantities orderId its db =
     (if its = [] then (False, db)
      else if (case query_order (orders db) orderId of
                 None \<Rightarrow> False
               | Some orderRecord \<Rightarrow> strict_eq_true (product_quantities_reduced orderRecord))
      then (True, db)
      else case reduce_loop its (products db) True of
        (success, ps) \<Rightarrow>
          if success
          then (True, db\<lparr>products := ps, orders := mark_reduced orderId (orders db)\<rparr>)
          else (False, db))"

subsection \<open>PUT /api/orders/:id/status and PUT /api/orders/:id\<close>

definition set_order_status :: "int \<Rightarrow> string \<Rightarrow> order_row list \<Rightarrow> order_row list" where
  "set_order_status oid st rows =
     map (\<lambda>row. if o_id row = oid then row\<lparr>order_status := st\<rparr> else row) rows"

text \<open>The transition that asks for the stock to be reduced.\<close>

definition needs_reduction :: "string \<Rightarrow> string \<Rightarrow> bool" where
  "needs_reduction orderStatus previousStatus =
     ((orderStatus = ''paid'' \<or> orderStatus = ''processing'') \<and>
      previousStatus \<noteq> ''paid'' \<and> previousStatus \<noteq> ''processing'')"

definition put_order_status ::
  "int \<Rightarrow> string \<Rightarrow> database \<Rightarrow> (failure + order_row option) \<times> database" where
  "put_order_status orderId orderStatus db =
     (if orderStatus = [] then (Inl StatusMissing, db)
      else case query_order (orders db) orderId of
        None \<Rightarrow> (Inl OrderNotFound, db)
      | Some currentOrder \<Rightarrow>
          (let previousStatus =
                 (if order_status currentOrder = [] then ''pending'' else order_status currentOrder);
               db1 = db\<lparr>orders := set_order_status orderId orderStatus (orders db)\<rparr>;
               db2 = (if needs_reduction orderStatus previousStatus then
                        (if items currentOrder = [] then db1
                         else snd (updateProductQuantities orderId (items currentOrder) db1))
                      else db1)
           in (Inr (query_order (orders db2) orderId), db2)))"

text \<open>
  \<^verbatim>\<open>PUT /api/orders/:id\<close> with the \<^verbatim>\<open>orderStatus\<close> field of its body; the comment,
  tracking number and delivery date it also writes do not touch the stock.
\<close>

definition put_order ::
  "int \<Rightarrow> string option \<Rightarrow> database \<Rightarrow> (failure + order_row option) \<times> database" where
  "put_order orderId orderStatus db =
     (case query_order (orders db) orderId of
        None \<Rightarrow> (Inl OrderNotFound, db)
      | Some currentOrder \<Rightarrow>
          (let prevStatus =
                 (if order_status currentOrder = [] then ''unknown'' else order_status currentOrder);
               db1 = (if truthy_str orderStatus
                      then db\<lparr>orders := set_order_status orderId (the orderStatus) (orders db)\<rparr>
                      else db);
               db2 = (if truthy_str orderStatus \<and> needs_reduction (the orderStatus) prevStatus then
                        (if items currentOrder = [] then db1
                         else snd (updateProductQuantities orderId (items currentOrder) db1))
                      else db1)
           in (Inr (query_order (orders db2) orderId), db2)))"

subsection \<open>DELETE /api/orders/:id\<close>

text \<open>The loop of \<^verbatim>\<open>UPDATE products SET quantity = quantity + ? WHERE id = ?\<close>, run for
  the items with a truthy \<^verbatim>\<open>id\<close> and a truthy \<^verbatim>\<open>quantity\<close>.\<close>

fun restore_quantities :: "order_item list \<Rightarrow> product list \<Rightarrow> product list" where
  "restore_quantities [] ps = ps"
| "restore_quantities (item # rest) ps =
     restore_quantities rest
       (if oi_id item \<noteq> 0 \<and> oi_quantity item \<noteq> 0
        then map (\<lambda>p. if p_id p = oi_id item
                       then p\<lparr>p_quantity := p_quantity p + oi_quantity item\<rparr> else p) ps
        else ps)"

definition decrement_uses_by_code :: "string \<Rightarrow> promo_code_row list \<Rightarrow> promo_code_row list" where
  "decrement_uses_by_code c pcs =
     map (\<lambda>p. if pc_code p = c then p\<lparr>current_uses := current_uses p - 1\<rparr> else p) pcs"

definition delete_order :: "int \<Rightarrow> database \<Rightarrow> (failure + unit) \<times> database" where
  "delete_order orderId db =
     (case query_order (orders db) orderId of
        None \<Rightarrow> (Inl (OrderIdNotFound orderId), db)
      | Some order_rec \<Rightarrow>
          (let db1 = (if truthy_str (promo_code order_rec) then
                        db\<lparr>promo_code_uses :=
                              filter (\<lambda>u. use_order_id u \<noteq> orderId) (promo_code_uses db),
                            promo_codes :=
                              decrement_uses_by_code (the (promo_code order_rec)) (promo_codes db)\<rparr>
                      else db);
               db2 = (if truthy (product_quantities_reduced order_rec) then
                        db1\<lparr>products := restore_quantities (items order_rec) (products db1)\<rparr>
                      else db1);
               db3 = db2\<lparr>orders := filter (\<lambda>row. o_id row \<noteq> orderId) (orders db2)\<rparr>
           in (Inr (), db3)))"

subsection \<open>POST /api/orders/:orderId/apply-promo\<close>

text \<open>
  The promo lookup of the endpoint:
  \<^verbatim>\<open>WHERE code = ? AND (expires_at IS NULL OR expires_at > datetime('now')) AND is_active = 1\<close>.
\<close>

definition query_promo_for_apply :: "string \<Rightarrow> promo_code_row list \<Rightarrow> string \<Rightarrow> promo_code_row option" where
  "query_promo_for_apply now pcs c =
     find (\<lambda>p. pc_code p = c \<and> (case expires_at p of None \<Rightarrow> True | Some e \<Rightarrow> e > now)
               \<and> is_active p) pcs"

definition query_user_usage :: "promo_code_use list \<Rightarrow> int \<Rightarrow> int \<Rightarrow> promo_code_use option" where
  "query_user_usage uses pid uid =
     find (\<lambda>u. promo_code_id u = pid \<and> use_user_id u = uid) uses"

definition apply_promo_update :: "int \<Rightarrow> promo_code_row \<Rightarrow> rat \<Rightarrow> order_row list \<Rightarrow> order_row list" where
  "apply_promo_update oid promo discountAmount rows =
     map (\<lambda>row. if o_id row = oid
                 then row\<lparr>promo_code := Some (pc_code promo),
                          promo_code_discount := Some discountAmount,
                          total_amount := total_amount row - discountAmount\<rparr>
                 else row) rows"

definition increment_uses_by_id :: "int \<Rightarrow> promo_code_row list \<Rightarrow> promo_code_row list" where
  "increment_uses_by_id pid pcs =
     map (\<lambda>p. if pc_id p = pid then p\<lparr>current_uses := current_uses p + 1\<rparr> else p) pcs"

definition apply_promo ::
  "string \<Rightarrow> int option \<Rightarrow> int \<Rightarrow> string \<Rightarrow> database
     \<Rightarrow> (failure + order_row) \<times> database" where
  "apply_promo now uid orderId code db =
     (if \<not> truthy_num uid then (Inl Unauthorized, db)
      else case query_order (orders db) orderId of
        None \<Rightarrow> (Inl OrderNotFound, db)
      | Some order_rec \<Rightarrow>
          (case query_promo_for_apply now (promo_codes db) code of
             None \<Rightarrow> (Inl InvalidPromo, db)
           | Some promo \<Rightarrow>
               if truthy_num (min_order_amount promo) \<and>
                  total_amount order_rec < the (min_order_amount promo)
               then (Inl (PromoMinOrderAmount (the (min_order_amount promo))), db)
               else if truthy_num (max_uses promo) \<and> current_uses promo \<ge> the (max_uses promo)
               then (Inl PromoLimitReached, db)
               else if query_user_usage (promo_code_uses db) (pc_id promo) (the uid) \<noteq> None
               then (Inl PromoAlreadyUsed, db)
               else
                 (let itemsTotal = total_amount order_rec - delivery_amount order_rec;
                      discountAmount = promo_discount promo itemsTotal;
                      db1 = db\<lparr>orders := apply_promo_update orderId promo discountAmount (orders db),
                               promo_codes := increment_uses_by_id (pc_id promo) (promo_codes db),
                               promo_code_uses := promo_code_uses db @
                                 [\<lparr>promo_code_id = pc_id promo, use_user_id = the uid,
                                   use_order_id = orderId,
                                   discount_amount = Some discountAmount\<rparr>]\<rparr>
                  in (case query_order (orders db1) orderId of
                        None \<Rightarrow> (Inl PromoUpdateError, db1)
                      | Some updatedOrder \<Rightarrow> (Inr updatedOrder, db1)))))"

subsection \<open>Quantities the claims speak about\<close>

text \<open>The sum of product price times requested quantity over the cart lines.\<close>

definition cart_items_total :: "product list \<Rightarrow> cart_item list \<Rightarrow> rat" where
  "cart_items_total ps cart =
     sum_list (map (\<lambda>item. case query_product ps (item_id item) of
                              None \<Rightarrow> 0
                            | Some product \<Rightarrow> p_price product * of_int (item_quantity item)) cart)"

text \<open>The sum of captured price times quantity over the line items of an order.\<close>

definition order_items_total :: "order_row \<Rightarrow> rat" where
  "order_items_total row = sum_list (map (\<lambda>item. oi_price item * of_int (oi_quantity item)) (items row))"

text \<open>The discount of a stored order, \<^verbatim>\<open>promo_code_discount || 0\<close>.\<close>

definition discount_or_zero :: "order_row \<Rightarrow> rat" where
  "discount_or_zero row = (case promo_code_discount row of None \<Rightarrow> 0 | Some d \<Rightarrow> d)"

subsection \<open>Example states\<close>

text \<open>
  A shop with one product (ten in stock, price 500) and three promo codes valid through
  the year 2024: two of 10 percent and a fixed one of 50 that may be used once. User 7
  orders two units with delivery 300 on 15 June 2024; \<open>ex_later\<close> is a day in 2025.
\<close>

definition ex_now :: string where
  "ex_now = ''2024-06-15 12:00:00''"

definition ex_later :: string where
  "ex_later = ''2025-03-01 12:00:00''"

definition ex_product :: product where
  "ex_product = \<lparr>p_id = 1, p_name = ''Ficus'', p_price = 500, p_quantity = 10\<rparr>"

definition ex_promo :: promo_code_row where
  "ex_promo = \<lparr>pc_id = 1, pc_code = ''SAVE10'', discount_type = Percentage, discount_value = 10,
     min_order_amount = None, start_date = ''2024-01-01T00:00:00.000Z'',
     end_date = ''2024-12-31T23:59:59.000Z'', expires_at = None,
     max_uses = None, current_uses = 0, is_active = True\<rparr>"

definition ex_promo_spring :: promo_code_row where
  "ex_promo_spring = \<lparr>pc_id = 2, pc_code = ''SPRING10'', discount_type = Percentage,
     discount_value = 10, min_order_amount = None, start_date = ''2024-01-01T00:00:00.000Z'',
     end_date = ''2024-12-31T23:59:59.000Z'',
     expires_at = None, max_uses = None, current_uses = 0, is_active = True\<rparr>"

definition ex_promo_once :: promo_code_row where
  "ex_promo_once = \<lparr>pc_id = 3, pc_code = ''ONCE'', discount_type = Fixed, discount_value = 50,
     min_order_amount = None, start_date = ''2024-01-01T00:00:00.000Z'',
     end_date = ''2024-12-31T23:59:59.000Z'', expires_at = None,
     max_uses = Some 1, current_uses = 0, is_active = True\<rparr>"

definition ex_db :: database where
  "ex_db = \<lparr>products = [ex_product], promo_codes = [ex_promo, ex_promo_spring, ex_promo_once],
     promo_code_uses = [], orders = []\<rparr>"

definition ex_user :: session_user where
  "ex_user = \<lparr>su_id = 7, isAdmin = False\<rparr>"

definition ex_request :: create_order_request where
  "ex_request = \<lparr>userId = 7, req_items = [\<lparr>item_id = 1, item_quantity = 2\<rparr>],
     deliveryAmount = Some 300, paymentMethod = ''card'', paymentProof = None, promoCode = None\<rparr>"

text \<open>The same request with the first promo code typed in lower case.\<close>

definition ex_request_promo :: create_order_request where
  "ex_request_promo = ex_request\<lparr>promoCode := Some ''save10''\<rparr>"

text \<open>The shop after order 1 was created: without a promo code, and with the first one.\<close>

definition ex_db_plain :: database where
  "ex_db_plain = snd (post_orders ex_now ex_user ex_request ex_db)"

definition ex_db_discounted :: database where
  "ex_db_discounted = snd (post_orders ex_now ex_user ex_request_promo ex_db)"

text \<open>The shop after user 7 placed order 1 with a promo code and then order 2 without one.\<close>

definition ex_db_used :: database where
  "ex_db_used = snd (post_orders ex_now ex_user ex_request ex_db_discounted)"

definition ex_db_once :: database where
  "ex_db_once = snd (post_orders ex_now ex_user ex_request
     (snd (post_orders ex_now ex_user (ex_request\<lparr>promoCode := Some ''ONCE''\<rparr>) ex_db)))"

section \<open>Properties\<close>

subsection \<open>Queries and row identifiers\<close>

lemma truthy_num_iff: "truthy_num x \<longleftrightarrow> (\<exists>m. x = Some m \<and> m \<noteq> 0)"
  by (cases x) auto

lemma query_product_mem: "query_product ps i = Some p \<Longrightarrow> p \<in> set ps \<and> p_id p = i"
  by (auto simp: query_product_def find_Some_iff)

lemma query_valid_promo_mem: "query_valid_promo now pcs c = Some promo \<Longrightarrow> promo \<in> set pcs"
  by (auto simp: query_valid_promo_def find_Some_iff)


lemma fold_max_ge: "a \<le> fold max xs (a::int)"
  by (induction xs arbitrary: a) (auto intro: order_trans[OF max.cobounded2])

lemma fold_max_mem: "x \<in> set xs \<Longrightarrow> x \<le> fold max xs (a::int)"
proof (induction xs arbitrary: a)
  case Nil
  then show ?case by simp
next
  case (Cons y ys)
  then show ?case
    using fold_max_ge[of "max y a" ys] by auto
qed

text \<open>The identifier of a new order is not in use.\<close>

lemma lastInsertRowid_fresh: "row \<in> set rows \<Longrightarrow> o_id row \<noteq> lastInsertRowid rows"
  using fold_max_mem[of "o_id row" "map o_id rows" 0] by (auto simp: lastInsertRowid_def)

lemma query_order_append_fresh:
  "\<forall>row \<in> set rows. o_id row \<noteq> i \<Longrightarrow> o_id r = i \<Longrightarrow> query_order (rows @ [r]) i = Some r"
  by (induction rows) (auto simp: query_order_def)

lemma query_order_mark_reduced:
  "query_order (mark_reduced i rows) i =
     map_option (\<lambda>r. r\<lparr>product_quantities_reduced := JNum 1\<rparr>) (query_order rows i)"
  by (induction rows) (auto simp: query_order_def mark_reduced_def)

lemma query_order_apply_promo_update:
  "query_order (apply_promo_update oid promo d rows) oid =
     map_option (\<lambda>row. row\<lparr>promo_code := Some (pc_code promo), promo_code_discount := Some d,
                             total_amount := total_amount row - d\<rparr>) (query_order rows oid)"
  by (induction rows) (auto simp: query_order_def apply_promo_update_def)

subsection \<open>Order creation\<close>

text \<open>The loop returns the sum over the cart lines, or the failure of the first bad line.\<close>

lemma items_total_loop_sum:
  "items_total_loop ps cart acc = Inr t \<Longrightarrow> t = acc + cart_items_total ps cart"
proof (induction cart arbitrary: acc)
  case Nil
  then show ?case by (simp add: cart_items_total_def)
next
  case (Cons item rest)
  show ?case
  proof (cases "query_product ps (item_id item)")
    case None
    with Cons.prems show ?thesis by simp
  next
    case (Some product)
    with Cons.prems have
      "items_total_loop ps rest (acc + p_price product * of_int (item_quantity item)) = Inr t"
      by (simp split: if_splits)
    from Cons.IH[OF this] Some show ?thesis
      by (simp add: cart_items_total_def)
  qed
qed

lemma items_total_loop_failure:
  "items_total_loop ps cart acc = Inl f \<Longrightarrow>
     (\<exists>item \<in> set cart. query_product ps (item_id item) = None \<and> f = ProductNotFound (item_id item)) \<or>
     (\<exists>item \<in> set cart. \<exists>product. query_product ps (item_id item) = Some product \<and>
         p_quantity product < item_quantity item \<and>
         f = InsufficientStock (p_name product) (p_quantity product))"
proof (induction cart arbitrary: acc)
  case Nil
  then show ?case by simp
next
  case (Cons item rest)
  show ?case
  proof (cases "query_product ps (item_id item)")
    case None
    with Cons.prems show ?thesis by auto
  next
    case (Some product)
    show ?thesis
    proof (cases "p_quantity product < item_quantity item")
      case True
      with Some Cons.prems show ?thesis by auto
    next
      case False
      with Some Cons.prems have
        "items_total_loop ps rest (acc + p_price product * of_int (item_quantity item)) = Inl f"
        by simp
      from Cons.IH[OF this] show ?thesis by auto
    qed
  qed
qed

lemma cart_items_total_nonneg:
  assumes "\<forall>p \<in> set ps. 0 \<le> p_price p" and "\<forall>item \<in> set cart. 0 \<le> item_quantity item"
  shows "0 \<le> cart_items_total ps cart"
  unfolding cart_items_total_def
  using assms
  by (intro sum_list_nonneg)
     (auto split: option.splits dest!: query_product_mem intro!: mult_nonneg_nonneg)

lemma Math_round_nonneg: "0 \<le> x \<Longrightarrow> 0 \<le> Math_round x"
  by (simp add: Math_round_def)

text \<open>Rounding to a double keeps the sign.\<close>

lemma pow2_pos: "0 < pow2 e"
  by (simp add: pow2_def)

lemma round_half_even_nonneg: "0 \<le> x \<Longrightarrow> 0 \<le> round_half_even x"
  by (auto simp: round_half_even_def Let_def)

lemma fl_nonneg: "0 \<le> x \<Longrightarrow> 0 \<le> fl x"
  by (auto simp: fl_def Let_def
      intro!: mult_nonneg_nonneg round_half_even_nonneg divide_nonneg_pos pow2_pos
              less_imp_le[OF pow2_pos])

text \<open>
  The rounding is that of the doubles: 29 percent of 50 is 14, where the exact product 14.5
  would round to 15; 10 percent of 1000 is 100.
\<close>

lemma promo_discount_rounds_doubles:
  "promo_discount (ex_promo\<lparr>discount_value := 29\<rparr>) 50 = 14 \<and>
   Math_round (50 * (29 / 100)) = 15 \<and>
   promo_discount ex_promo 1000 = 100"
  by code_simp

lemma promo_discount_unfold:
  "promo_discount promo base =
     min (case discount_type promo of
            Percentage \<Rightarrow> Math_round (fl (base * fl (discount_value promo / 100)))
          | Fixed \<Rightarrow> discount_value promo) base"
  by (simp add: promo_discount_def Let_def)

lemma promo_discount_bounds:
  assumes "0 \<le> discount_value promo" and "0 \<le> base"
  shows "0 \<le> promo_discount promo base \<and> promo_discount promo base \<le> base"
proof -
  have "0 \<le> fl (base * fl (discount_value promo / 100))"
    using assms by (intro fl_nonneg mult_nonneg_nonneg) simp_all
  then show ?thesis
    using assms
    by (auto simp: promo_discount_def Let_def Math_round_nonneg split: discount_type.splits)
qed

lemma order_promo_discount_failure:
  "order_promo_discount now pcs code t = Inl f \<Longrightarrow>
     truthy_str code \<and>
     ((f = InvalidPromo \<and> query_valid_promo now pcs (toUpperCase (the code)) = None) \<or>
      (\<exists>promo m. query_valid_promo now pcs (toUpperCase (the code)) = Some promo \<and>
          min_order_amount promo = Some m \<and> t < m \<and> f = MinOrderAmount m))"
  by (auto simp: order_promo_discount_def truthy_num_iff split: if_splits option.splits)

text \<open>The transaction always ends with the created order, read back from the table.\<close>

lemma save_order_result:
  "\<exists>created. save_order orderData delivery itemsTotal d db =
       (Inr created, snd (save_order orderData delivery itemsTotal d db))
     \<and> query_order (orders (snd (save_order orderData delivery itemsTotal d db))) (o_id created)
         = Some created
     \<and> o_id created = lastInsertRowid (orders db)
     \<and> total_amount created = itemsTotal - (case d of None \<Rightarrow> 0 | Some x \<Rightarrow> x) + delivery
     \<and> promo_code_discount created = d"
  by (auto simp: save_order_def Let_def query_order_append_fresh lastInsertRowid_fresh
      query_order_mark_reduced)

text \<open>A successful creation went through the three steps.\<close>

lemma post_orders_success_dest:
  assumes "post_orders now user orderData db = (Inr created, db')"
  shows "\<exists>delivery itemsTotal d.
     deliveryAmount orderData = Some delivery \<and>
     items_total_loop (products db) (req_items orderData) 0 = Inr itemsTotal \<and>
     order_promo_discount now (promo_codes db) (promoCode orderData) itemsTotal = Inr d \<and>
     save_order orderData delivery itemsTotal d db = (Inr created, db')"
  using assms
  by (auto simp: post_orders_def split: if_splits option.splits sum.splits)

text \<open>
  Order creation rejects a code none of whose rows is active, under its cap and in its
  window, and writes nothing. The window is judged on the texts: a code that starts later
  on the day of \<open>now\<close> is refused and one that ended earlier on that day is accepted, as
  the letter T of the ISO text sorts after the blank of \<^verbatim>\<open>datetime('now')\<close>.
\<close>

lemma creation_window_is_compared_as_text:
  "\<not> isl (fst (post_orders ex_now ex_user (ex_request\<lparr>promoCode := Some ''SAVE10''\<rparr>)
      (ex_db\<lparr>promo_codes := [ex_promo\<lparr>end_date := ''2024-06-15T00:00:00.000Z''\<rparr>]\<rparr>))) \<and>
   fst (post_orders ex_now ex_user (ex_request\<lparr>promoCode := Some ''SAVE10''\<rparr>)
      (ex_db\<lparr>promo_codes := [ex_promo\<lparr>start_date := ''2024-06-15T00:00:00.000Z''\<rparr>]\<rparr>))
     = Inl InvalidPromo"
  by code_simp

lemma creation_rejects_unusable_promo:
  assumes "truthy_str (promoCode orderData)"
    and "\<forall>p \<in> set (promo_codes db). pc_code p = toUpperCase (the (promoCode orderData)) \<longrightarrow>
           \<not> is_active p \<or> now < start_date p \<or> end_date p < now \<or> \<not> under_use_cap p"
  shows "isl (fst (post_orders now user orderData db)) \<and> snd (post_orders now user orderData db) = db"
proof -
  have "query_valid_promo now (promo_codes db) (toUpperCase (the (promoCode orderData))) = None"
    using assms(2) by (auto simp: query_valid_promo_def find_None_iff)
  then have "\<And>t. order_promo_discount now (promo_codes db) (promoCode orderData) t = Inl InvalidPromo"
    using assms(1) by (simp add: order_promo_discount_def)
  then show ?thesis
    by (auto simp: post_orders_def split: option.splits sum.splits)
qed

text \<open>Order creation does not read the table of promo uses.\<close>

lemma post_orders_ignores_uses:
  "fst (post_orders now user orderData (db\<lparr>promo_code_uses := uses\<rparr>)) =
   fst (post_orders now user orderData db)"
  by (simp add: post_orders_def save_order_def Let_def split: option.splits sum.splits)

subsection \<open>Applying a promo code to a stored order\<close>

lemma apply_promo_accepts:
  assumes "truthy_num uid"
    and "query_order (orders db) orderId = Some ord"
    and "query_promo_for_apply now (promo_codes db) code = Some promo"
    and "\<not> (truthy_num (min_order_amount promo) \<and> total_amount ord < the (min_order_amount promo))"
    and "\<not> (truthy_num (max_uses promo) \<and> the (max_uses promo) \<le> current_uses promo)"
    and "query_user_usage (promo_code_uses db) (pc_id promo) (the uid) = None"
  shows "\<exists>db'. apply_promo now uid orderId code db =
     (Inr (ord\<lparr>promo_code := Some (pc_code promo),
                promo_code_discount :=
                  Some (promo_discount promo (total_amount ord - delivery_amount ord)),
                total_amount :=
                  total_amount ord - promo_discount promo (total_amount ord - delivery_amount ord)\<rparr>),
      db')"
  using assms
  by (auto simp: apply_promo_def Let_def query_order_apply_promo_update)

lemma apply_promo_success_dest:
  assumes "apply_promo now uid orderId code db = (Inr updated, db')"
  shows "\<exists>ord promo. query_order (orders db) orderId = Some ord \<and>
     query_promo_for_apply now (promo_codes db) code = Some promo \<and>
     updated = ord\<lparr>promo_code := Some (pc_code promo),
                promo_code_discount :=
                  Some (promo_discount promo (total_amount ord - delivery_amount ord)),
                total_amount :=
                  total_amount ord - promo_discount promo (total_amount ord - delivery_amount ord)\<rparr>"
  using assms
  by (auto simp: apply_promo_def Let_def query_order_apply_promo_update
      split: if_splits option.splits)

subsection \<open>Reducing and restoring stock\<close>

text \<open>The guard of \<open>updateProductQuantities\<close> fires on the boolean \<^verbatim>\<open>true\<close>.\<close>

lemma updateProductQuantities_guard:
  "its \<noteq> [] \<Longrightarrow> query_order (orders db) orderId = Some row \<Longrightarrow>
   product_quantities_reduced row = JBool True \<Longrightarrow>
   updateProductQuantities orderId its db = (True, db)"
  by (simp add: updateProductQuantities_def)

text \<open>The loop of \<open>updateProductQuantities\<close> never writes a negative quantity.\<close>

lemma reduce_loop_nonneg:
  "\<forall>p \<in> set ps. 0 \<le> p_quantity p \<Longrightarrow> \<forall>p \<in> set (snd (reduce_loop its ps s)). 0 \<le> p_quantity p"
proof (induction its arbitrary: ps s)
  case Nil
  then show ?case by simp
next
  case (Cons item rest)
  show ?case
  proof (cases "oi_id item = 0 \<or> oi_quantity item \<le> 0 \<or> query_product ps (oi_id item) = None")
    case True
    then show ?thesis using Cons.IH[OF Cons.prems] by auto
  next
    case False
    then obtain product where pr: "query_product ps (oi_id item) = Some product" by auto
    let ?ps = "map (\<lambda>p. if p_id p = oi_id item
                      then p\<lparr>p_quantity := max 0 (p_quantity product - oi_quantity item)\<rparr>
                      else p) ps"
    have "\<forall>p \<in> set ?ps. 0 \<le> p_quantity p" using Cons.prems by auto
    from Cons.IH[OF this] False pr show ?thesis by auto
  qed
qed

text \<open>Deleting an order gives every product back the quantities of its line items.\<close>

lemma restore_quantities_ids: "map p_id (restore_quantities its ps) = map p_id ps"
proof (induction its arbitrary: ps)
  case Nil
  then show ?case by simp
next
  case (Cons item rest)
  show ?case
    by (simp add: Cons.IH comp_def if_distrib cong: if_cong)
qed

lemma restore_quantities_adds:
  "map p_quantity (restore_quantities its ps) =
     map (\<lambda>p. p_quantity p +
            sum_list (map oi_quantity
              (filter (\<lambda>item. oi_id item = p_id p \<and> oi_id item \<noteq> 0) its))) ps"
proof (induction its arbitrary: ps)
  case Nil
  then show ?case by simp
next
  case (Cons item rest)
  show ?case
  proof (cases "oi_id item \<noteq> 0 \<and> oi_quantity item \<noteq> 0")
    case True
    then show ?thesis
      by (simp add: Cons.IH comp_def)
  next
    case False
    then show ?thesis
      by (simp add: Cons.IH) (auto intro!: map_cong)
  qed
qed


section \<open>The claims\<close>

text \<open>
  C1. Every successfully created order is persisted with
  \<open>total_amount = itemsTotal - discount + deliveryAmount\<close>, where \<open>itemsTotal\<close> is the sum
  of product price times requested quantity over the cart lines and the discount lies
  between 0 and \<open>itemsTotal\<close>, and is 0 when no promo code is supplied. A valid cart has
  no negative quantity; prices and discount values are not negative (the promo schema
  refuses a negative discount value).
\<close>

theorem order_total_amount:
  assumes ok: "post_orders now user orderData db = (Inr created, db')"
    and prices: "\<forall>p \<in> set (products db). 0 \<le> p_price p"
    and quantities: "\<forall>item \<in> set (req_items orderData). 0 \<le> item_quantity item"
    and discs: "\<forall>promo \<in> set (promo_codes db). 0 \<le> discount_value promo"
  shows "deliveryAmount orderData \<noteq> None \<and>
         query_order (orders db') (o_id created) = Some created \<and>
         total_amount created =
           cart_items_total (products db) (req_items orderData) - discount_or_zero created
             + the (deliveryAmount orderData) \<and>
         0 \<le> discount_or_zero created \<and>
         discount_or_zero created \<le> cart_items_total (products db) (req_items orderData) \<and>
         (\<not> truthy_str (promoCode orderData) \<longrightarrow> discount_or_zero created = 0)"
proof -
  from post_orders_success_dest[OF ok] obtain delivery itemsTotal d where
    dl: "deliveryAmount orderData = Some delivery"
    and loop: "items_total_loop (products db) (req_items orderData) 0 = Inr itemsTotal"
    and promo: "order_promo_discount now (promo_codes db) (promoCode orderData) itemsTotal = Inr d"
    and saved: "save_order orderData delivery itemsTotal d db = (Inr created, db')"
    by blast
  have tot: "itemsTotal = cart_items_total (products db) (req_items orderData)"
    using items_total_loop_sum[OF loop] by simp
  have nonneg: "0 \<le> itemsTotal"
    unfolding tot using prices quantities by (rule cart_items_total_nonneg)
  let ?discount = "case d of None \<Rightarrow> 0 | Some x \<Rightarrow> x"
  have bounds: "0 \<le> ?discount \<and> ?discount \<le> itemsTotal"
    using promo nonneg discs promo_discount_bounds
    by (auto simp: order_promo_discount_def split: if_splits option.splits
             dest!: query_valid_promo_mem)
  have none: "\<not> truthy_str (promoCode orderData) \<longrightarrow> ?discount = 0"
    using promo by (auto simp: order_promo_discount_def split: if_splits)
  from save_order_result[of orderData delivery itemsTotal d db] saved
  have "query_order (orders db') (o_id created) = Some created"
    and "total_amount created = itemsTotal - ?discount + delivery"
    and "promo_code_discount created = d"
    by auto
  with tot dl bounds none show ?thesis by (auto simp: discount_or_zero_def)
qed

text \<open>The order of two units at 500 with a 10 percent code and delivery 300: 1000 - 100 + 300.\<close>

theorem order_total_amount_witness:
  "post_orders ex_now ex_user ex_request_promo ex_db =
     (Inr (projr (fst (post_orders ex_now ex_user ex_request_promo ex_db))), ex_db_discounted) \<and>
   cart_items_total (products ex_db) (req_items ex_request_promo) = 1000 \<and>
   discount_or_zero (projr (fst (post_orders ex_now ex_user ex_request_promo ex_db))) = 100 \<and>
   total_amount (projr (fst (post_orders ex_now ex_user ex_request_promo ex_db))) = 1000 - 100 + 300"
proof -
  have h1: "post_orders ex_now ex_user ex_request_promo ex_db =
     (Inr (projr (fst (post_orders ex_now ex_user ex_request_promo ex_db))), ex_db_discounted)"
    by code_simp
  have h2: "\<forall>p \<in> set (products ex_db). 0 \<le> p_price p" by code_simp
  have h3: "\<forall>item \<in> set (req_items ex_request_promo). 0 \<le> item_quantity item" by code_simp
  have h4: "\<forall>promo \<in> set (promo_codes ex_db). 0 \<le> discount_value promo" by code_simp
  have h5: "cart_items_total (products ex_db) (req_items ex_request_promo) = 1000" by code_simp
  have h6: "discount_or_zero (projr (fst (post_orders ex_now ex_user ex_request_promo ex_db))) = 100"
    by code_simp
  have h7: "the (deliveryAmount ex_request_promo) = 300" by code_simp
  from order_total_amount[OF h1 h2 h3 h4] h1 h5 h6 h7 show ?thesis by simp
qed

text \<open>
  C2. Once the flag \<open>product_quantities_reduced\<close> of an order is set, no later run of the
  inventory-decrement step reduces a stock again. The code sets the flag to the integer 1
  and its guard compares the flag with \<^verbatim>\<open>=== true\<close>, so the guard does not fire: an order
  created with a payment proof has its stock reduced at creation (10 to 8, flag 1, status
  pending), and the update of its status to paid, through either handler, reduces the
  stock a second time (8 to 6).
\<close>

theorem flag_does_not_stop_second_reduction:
  "product_quantities_reduced
     (projr (fst (post_orders ex_now ex_user (ex_request\<lparr>paymentProof := Some ''/uploads/proof.png''\<rparr>) ex_db)))
     = JNum 1 \<and>
   order_status
     (projr (fst (post_orders ex_now ex_user (ex_request\<lparr>paymentProof := Some ''/uploads/proof.png''\<rparr>) ex_db)))
     = ''pending'' \<and>
   map p_quantity (products (snd (post_orders ex_now ex_user
      (ex_request\<lparr>paymentProof := Some ''/uploads/proof.png''\<rparr>) ex_db))) = [8] \<and>
   map p_quantity (products (snd (put_order_status 1 ''paid'' (snd (post_orders ex_now ex_user
      (ex_request\<lparr>paymentProof := Some ''/uploads/proof.png''\<rparr>) ex_db))))) = [6] \<and>
   map p_quantity (products (snd (put_order 1 (Some ''paid'') (snd (post_orders ex_now ex_user
      (ex_request\<lparr>paymentProof := Some ''/uploads/proof.png''\<rparr>) ex_db))))) = [6]"
  by code_simp

text \<open>
  C3. A request to create an order that fails changes nothing: the database after the
  response is the database before it. The failure is the one its cause names (empty cart,
  missing delivery amount, missing product, requested quantity above the stock, promo
  code without a valid row, order below the promo's minimum, foreign user), and the
  messages of these failures are pairwise different.
\<close>

theorem failed_order_changes_nothing:
  assumes failed: "post_orders now user orderData db = (Inl f, db')"
  shows "db' = db \<and>
    ((f = Forbidden \<and> su_id user \<noteq> userId orderData \<and> \<not> isAdmin user) \<or>
     (f = EmptyCart \<and> req_items orderData = []) \<or>
     (f = DeliveryMissing \<and> deliveryAmount orderData = None) \<or>
     (\<exists>item \<in> set (req_items orderData).
         f = ProductNotFound (item_id item) \<and> query_product (products db) (item_id item) = None) \<or>
     (\<exists>item \<in> set (req_items orderData). \<exists>product.
         f = InsufficientStock (p_name product) (p_quantity product) \<and>
         query_product (products db) (item_id item) = Some product \<and>
         p_quantity product < item_quantity item) \<or>
     (f = InvalidPromo \<and> truthy_str (promoCode orderData) \<and>
         query_valid_promo now (promo_codes db) (toUpperCase (the (promoCode orderData))) = None) \<or>
     (\<exists>m. f = MinOrderAmount m \<and> truthy_str (promoCode orderData))) \<and>
    distinct (map message_text
      [EmptyCart, DeliveryMissing, ProductNotFound i, InsufficientStock n q, InvalidPromo,
       MinOrderAmount m, Forbidden])"
proof -
  have msgs: "distinct (map message_text
      [EmptyCart, DeliveryMissing, ProductNotFound i, InsufficientStock n q, InvalidPromo,
       MinOrderAmount m, Forbidden])"
    by simp
  show ?thesis
  proof (cases "su_id user \<noteq> userId orderData \<and> \<not> isAdmin user")
    case True
    with failed msgs show ?thesis by (auto simp: post_orders_def)
  next
    case auth: False
    show ?thesis
    proof (cases "req_items orderData = []")
      case True
      with failed auth msgs show ?thesis by (auto simp: post_orders_def)
    next
      case cart: False
      show ?thesis
      proof (cases "deliveryAmount orderData")
        case None
        with failed auth cart msgs show ?thesis by (auto simp: post_orders_def)
      next
        case (Some delivery)
        show ?thesis
        proof (cases "items_total_loop (products db) (req_items orderData) 0")
          case (Inl g)
          with failed auth cart Some have "f = g" "db' = db"
            by (auto simp: post_orders_def)
          with items_total_loop_failure[OF Inl] msgs show ?thesis
            by blast
        next
          case loop: (Inr itemsTotal)
          show ?thesis
          proof (cases "order_promo_discount now (promo_codes db) (promoCode orderData) itemsTotal")
            case (Inl g)
            with failed auth cart Some loop have "f = g" "db' = db"
              by (auto simp: post_orders_def)
            with order_promo_discount_failure[OF Inl] msgs show ?thesis
              by blast
          next
            case (Inr d)
            with failed auth cart Some loop
            have "save_order orderData delivery itemsTotal d db = (Inl f, db')"
              by (auto simp: post_orders_def)
            with save_order_result[of orderData delivery itemsTotal d db] show ?thesis
              by auto
          qed
        qed
      qed
    qed
  qed
qed

text \<open>Eleven units of a product with ten in stock: the request fails and the shop is as before.\<close>

theorem failed_order_changes_nothing_witness:
  "post_orders ex_now ex_user (ex_request\<lparr>req_items := [\<lparr>item_id = 1, item_quantity = 11\<rparr>]\<rparr>) ex_db =
     (Inl (InsufficientStock ''Ficus'' 10),
      snd (post_orders ex_now ex_user
             (ex_request\<lparr>req_items := [\<lparr>item_id = 1, item_quantity = 11\<rparr>]\<rparr>) ex_db)) \<and>
   snd (post_orders ex_now ex_user
          (ex_request\<lparr>req_items := [\<lparr>item_id = 1, item_quantity = 11\<rparr>]\<rparr>) ex_db) = ex_db"
proof -
  have h: "post_orders ex_now ex_user
        (ex_request\<lparr>req_items := [\<lparr>item_id = 1, item_quantity = 11\<rparr>]\<rparr>) ex_db =
     (Inl (InsufficientStock ''Ficus'' 10),
      snd (post_orders ex_now ex_user
             (ex_request\<lparr>req_items := [\<lparr>item_id = 1, item_quantity = 11\<rparr>]\<rparr>) ex_db))"
    by code_simp
  from failed_order_changes_nothing[OF h] h show ?thesis by simp
qed

text \<open>
  C4. In both promo paths a percentage discount is computed on the item subtotal only,
  never on the delivery amount, and a fixed discount is capped by the item subtotal. Order
  creation does so: items of 1000 with delivery 200 and a 10 percent code give discount
  100 and total 1100. The apply-promo endpoint takes \<open>total_amount - delivery_amount\<close> of
  the stored order for the item subtotal, which it is only while the order carries no
  discount: on the order of 1000 that was created with a 10 percent code the base is 900,
  and a second 10 percent code yields 90 where 10 percent of the items is 100.
\<close>

theorem apply_promo_discounts_reduced_base:
  "promo_code_discount (projr (fst (post_orders ex_now ex_user
      (ex_request_promo\<lparr>deliveryAmount := Some 200\<rparr>) ex_db))) = Some 100 \<and>
   total_amount (projr (fst (post_orders ex_now ex_user
      (ex_request_promo\<lparr>deliveryAmount := Some 200\<rparr>) ex_db))) = 1100 \<and>
   query_order (orders ex_db_discounted) 1 =
     Some (projr (fst (post_orders ex_now ex_user ex_request_promo ex_db))) \<and>
   order_items_total (projr (fst (post_orders ex_now ex_user ex_request_promo ex_db))) = 1000 \<and>
   total_amount (projr (fst (post_orders ex_now ex_user ex_request_promo ex_db)))
     - delivery_amount (projr (fst (post_orders ex_now ex_user ex_request_promo ex_db))) = 900 \<and>
   discount_type ex_promo_spring = Percentage \<and>
   discount_value ex_promo_spring = 10 \<and>
   promo_discount ex_promo_spring 1000 = 100 \<and>
   \<not> isl (fst (apply_promo ex_now (Some 7) 1 ''SPRING10'' ex_db_discounted)) \<and>
   promo_code_discount (projr (fst (apply_promo ex_now (Some 7) 1 ''SPRING10'' ex_db_discounted)))
     = Some 90 \<and>
   promo_code_discount (the (query_order
      (orders (snd (apply_promo ex_now (Some 7) 1 ''SPRING10'' ex_db_discounted))) 1)) = Some 90"
  by code_simp

text \<open>
  C5. A promo code that is inactive, used up or outside its window from \<open>start_date\<close> to
  \<open>end_date\<close> is rejected by both promo paths. Order creation does so
  (\<open>creation_rejects_unusable_promo\<close>); the apply-promo endpoint never reads
  \<open>start_date\<close> or \<open>end_date\<close>: in March 2025 the code whose window ended with 2024 is
  refused by order creation and accepted by the endpoint, which takes 100 off the order of
  1300.
\<close>

theorem apply_promo_accepts_expired_code:
  "end_date ex_promo < ex_later \<and>
   fst (post_orders ex_later ex_user (ex_request\<lparr>promoCode := Some ''SAVE10''\<rparr>) ex_db) = Inl InvalidPromo \<and>
   \<not> isl (fst (apply_promo ex_later (Some 7) 1 ''SAVE10'' ex_db_plain)) \<and>
   promo_code_discount (projr (fst (apply_promo ex_later (Some 7) 1 ''SAVE10'' ex_db_plain))) = Some 100 \<and>
   total_amount (projr (fst (apply_promo ex_later (Some 7) 1 ''SAVE10'' ex_db_plain))) = 1200"
  by code_simp

text \<open>
  C6. Deleting an order whose stock was reduced gives every line item's quantity back, and
  when the order carries a promo code it deletes the promo use and takes one off the code's
  use counter. The stock and the promo use are handled so (\<open>restore_quantities_adds\<close>);
  the counter is looked up by the code as the order stores it, and order creation stores
  the code as the customer typed it while it counts the use on the upper-case code: after
  an order with the code typed in lower case the counter is 1, and after the order is
  deleted it is still 1.
\<close>

theorem delete_keeps_use_counter_of_lowercase_code:
  "map current_uses (promo_codes ex_db) = [0, 0, 0] \<and>
   promo_code (projr (fst (post_orders ex_now ex_user
      (ex_request_promo\<lparr>paymentMethod := ''balance''\<rparr>) ex_db))) = Some ''save10'' \<and>
   product_quantities_reduced (projr (fst (post_orders ex_now ex_user
      (ex_request_promo\<lparr>paymentMethod := ''balance''\<rparr>) ex_db))) = JNum 1 \<and>
   map current_uses (promo_codes (snd (post_orders ex_now ex_user
      (ex_request_promo\<lparr>paymentMethod := ''balance''\<rparr>) ex_db))) = [1, 0, 0] \<and>
   fst (delete_order 1 (snd (post_orders ex_now ex_user
      (ex_request_promo\<lparr>paymentMethod := ''balance''\<rparr>) ex_db))) = Inr () \<and>
   map current_uses (promo_codes (snd (delete_order 1 (snd (post_orders ex_now ex_user
      (ex_request_promo\<lparr>paymentMethod := ''balance''\<rparr>) ex_db))))) = [1, 0, 0] \<and>
   promo_code_uses (snd (delete_order 1 (snd (post_orders ex_now ex_user
      (ex_request_promo\<lparr>paymentMethod := ''balance''\<rparr>) ex_db)))) = [] \<and>
   map p_quantity (products (snd (delete_order 1 (snd (post_orders ex_now ex_user
      (ex_request_promo\<lparr>paymentMethod := ''balance''\<rparr>) ex_db))))) = [10]"
  by code_simp



text \<open>
  C8 (as amended). When a user has already used a promo code, applying that code to an
  order through the apply-promo endpoint is refused with status 400 and changes nothing;
  the message is the one for a code already used whenever the minimum order amount and the
  use cap, which the endpoint checks first, let the code through. Order creation does not
  read the table of promo uses at all: its response is the same whatever that table holds.
\<close>

theorem promo_reuse_rejected_by_apply_promo:
  "(uid \<noteq> 0 \<and> query_order (orders db) orderId = Some ord \<and>
    query_promo_for_apply now (promo_codes db) code = Some promo \<and>
    query_user_usage (promo_code_uses db) (pc_id promo) uid \<noteq> None \<longrightarrow>
      isl (fst (apply_promo now (Some uid) orderId code db)) \<and>
      status_code (projl (fst (apply_promo now (Some uid) orderId code db))) = 400 \<and>
      snd (apply_promo now (Some uid) orderId code db) = db \<and>
      (\<not> (truthy_num (min_order_amount promo) \<and> total_amount ord < the (min_order_amount promo)) \<and>
       \<not> (truthy_num (max_uses promo) \<and> the (max_uses promo) \<le> current_uses promo) \<longrightarrow>
         fst (apply_promo now (Some uid) orderId code db) = Inl PromoAlreadyUsed))
   \<and> fst (post_orders now user orderData (db\<lparr>promo_code_uses := uses\<rparr>)) =
       fst (post_orders now user orderData db)"
  by (auto simp: apply_promo_def post_orders_ignores_uses)

text \<open>
  User 7 used the first code on order 1 and then placed order 2 without a code: the
  endpoint refuses the code on order 2 as already used, and order creation accepts it a
  second time, with the discount of 100.
\<close>

theorem promo_reuse_rejected_by_apply_promo_witness:
  "query_user_usage (promo_code_uses ex_db_used) 1 7 \<noteq> None \<and>
   user_id (the (query_order (orders ex_db_used) 2)) = 7 \<and>
   fst (apply_promo ex_now (Some 7) 2 ''SAVE10'' ex_db_used) = Inl PromoAlreadyUsed \<and>
   snd (apply_promo ex_now (Some 7) 2 ''SAVE10'' ex_db_used) = ex_db_used \<and>
   \<not> isl (fst (post_orders ex_now ex_user ex_request_promo ex_db_used)) \<and>
   promo_code_discount (projr (fst (post_orders ex_now ex_user ex_request_promo ex_db_used))) = Some 100"
proof -
  let ?promo = "the (query_promo_for_apply ex_now (promo_codes ex_db_used) ''SAVE10'')"
  let ?ord = "the (query_order (orders ex_db_used) 2)"
  have h1: "(7::int) \<noteq> 0" by simp
  have h2: "query_order (orders ex_db_used) 2 = Some ?ord" by code_simp
  have h3: "query_promo_for_apply ex_now (promo_codes ex_db_used) ''SAVE10'' = Some ?promo" by code_simp
  have h4: "query_user_usage (promo_code_uses ex_db_used) (pc_id ?promo) 7 \<noteq> None" by code_simp
  have h5: "\<not> (truthy_num (min_order_amount ?promo) \<and> total_amount ?ord < the (min_order_amount ?promo))"
    by code_simp
  have h6: "\<not> (truthy_num (max_uses ?promo) \<and> the (max_uses ?promo) \<le> current_uses ?promo)"
    by code_simp
  have e1: "query_user_usage (promo_code_uses ex_db_used) 1 7 \<noteq> None" by code_simp
  have e2: "user_id ?ord = 7" by code_simp
  have e3: "\<not> isl (fst (post_orders ex_now ex_user ex_request_promo ex_db_used))" by code_simp
  have e4: "promo_code_discount (projr (fst (post_orders ex_now ex_user ex_request_promo ex_db_used)))
     = Some 100" by code_simp
  from promo_reuse_rejected_by_apply_promo[where uid = 7 and db = ex_db_used and orderId = 2
         and ord = "?ord" and now = ex_now and code = "''SAVE10''" and promo = "?promo",
         THEN conjunct1, THEN mp, OF conjI[OF h1 conjI[OF h2 conjI[OF h3 h4]]]]
       h5 h6
  have "fst (apply_promo ex_now (Some 7) 2 ''SAVE10'' ex_db_used) = Inl PromoAlreadyUsed"
    and "snd (apply_promo ex_now (Some 7) 2 ''SAVE10'' ex_db_used) = ex_db_used"
    by blast+
  with e1 e2 e3 e4 show ?thesis by blast
qed

text \<open>
  The claim as stated fails on a code whose use cap is reached: user 7 used the code that
  may be used once on order 1, and applying it to their order 2 is refused with the message
  for a reached use limit, not with the message for a code already used.
\<close>

theorem promo_reuse_counterexample:
  "query_user_usage (promo_code_uses ex_db_once) 3 7 \<noteq> None \<and>
   user_id (the (query_order (orders ex_db_once) 2)) = 7 \<and>
   fst (apply_promo ex_now (Some 7) 2 ''ONCE'' ex_db_once) = Inl PromoLimitReached \<and>
   message_text PromoLimitReached \<noteq> message_text PromoAlreadyUsed"
  by code_simp

text \<open>
  C9. No inventory decrement makes a stock negative. \<open>updateProductQuantities\<close> skips the
  items whose quantity is not positive and writes \<open>max 0\<close> of the difference
  (\<open>reduce_loop_nonneg\<close>). Order creation checks each cart line against the stock as it
  is before the order and then subtracts every line: two lines of six units of a product
  with ten in stock pass the check and leave a stock of minus two.
\<close>

theorem duplicate_cart_lines_drive_stock_negative:
  "items_total_loop (products ex_db)
     [\<lparr>item_id = 1, item_quantity = 6\<rparr>, \<lparr>item_id = 1, item_quantity = 6\<rparr>] 0 = Inr 6000 \<and>
   \<not> isl (fst (post_orders ex_now ex_user
      (ex_request\<lparr>req_items := [\<lparr>item_id = 1, item_quantity = 6\<rparr>, \<lparr>item_id = 1, item_quantity = 6\<rparr>],
                   paymentMethod := ''balance''\<rparr>) ex_db)) \<and>
   map p_quantity (products ex_db) = [10] \<and>
   map p_quantity (products (snd (post_orders ex_now ex_user
      (ex_request\<lparr>req_items := [\<lparr>item_id = 1, item_quantity = 6\<rparr>, \<lparr>item_id = 1, item_quantity = 6\<rparr>],
                   paymentMethod := ''balance''\<rparr>) ex_db))) = [- 2]"
  by code_simp



end
